theory Spec2Isabelle
  imports Main
begin

section \<open>Handler signatures of connect-es: \<open>method-implementation.ts\<close>\<close>

text \<open>
  The source file declares types only: the interface \<open>HandlerContext\<close>, the interface
  \<open>TypedMethodInfo\<close>, the four handler signatures and the conditional type
  \<open>MethodImpl\<close> that selects one of them from the kind of a method. The types are
  embedded as terms of a small language of TypeScript types, and the conditional type
  as a function on them.
\<close>

subsection \<open>Vocabulary imported by the source\<close>

text \<open>
  Modelled from the spec: the enum \<open>MethodKind\<close> is imported from the protobuf runtime
  and is not declared in this repository. The source names four members, and the spec
  gives the call-shape tag exactly these four variants.
\<close>

datatype MethodKind = Unary | ServerStreaming | ClientStreaming | BiDiStreaming

text \<open>
  Modelled from the spec: the enum \<open>MethodIdempotency\<close> is imported as well. The hint is
  optional; an absent hint is the spec's "unknown".
\<close>

datatype MethodIdempotency = NoSideEffects | Idempotent

text \<open>
  Modelled from the spec: \<open>MessageType\<close>, \<open>Message\<close> and \<open>PartialMessage\<close> are imported
  too. A message type declares fields, each with a default value. An object is a list of
  its properties, looked up with \<open>map_of\<close>. A message of the type has every declared
  field and no other; a partial message has no field that is not declared, and may leave
  declared fields out. The types of the field values are not modelled.
\<close>

datatype scalar = SNumber int | SString string | SBool bool

type_synonym object = "(string \<times> scalar) list"

record MessageType =
  typeName :: string
  fieldList :: "(string \<times> scalar) list"

definition is_message :: "MessageType \<Rightarrow> object \<Rightarrow> bool" where
  "is_message T m \<longleftrightarrow> set (map fst m) = set (map fst (fieldList T))"

definition is_partial :: "MessageType \<Rightarrow> object \<Rightarrow> bool" where
  "is_partial T m \<longleftrightarrow> set (map fst m) \<subseteq> set (map fst (fieldList T))"

text \<open>
  Modelled from the spec: the completion of a partial message, which the runtime applies
  to what a handler returns: every declared field the handler left out gets its declared
  default, every field the handler set keeps its value.
\<close>

definition completeMessage :: "MessageType \<Rightarrow> object \<Rightarrow> object" where
  "completeMessage T m =
     map (\<lambda>(f, d). (f, case map_of m f of Some v \<Rightarrow> v | None \<Rightarrow> d)) (fieldList T)"

subsection \<open>TypeScript types\<close>

text \<open>
  The types the handler signatures are built from. \<open>TMessage T\<close> is the class of the
  messages of type \<open>T\<close> (a type argument \<open>I\<close> or \<open>O\<close> of the source, which
  \<open>extends Message\<close>), \<open>TUnion a b\<close> is \<open>a | b\<close>, \<open>TFunction ps r\<close> is
  \<open>(ps) => r\<close>.
\<close>

datatype ts_type =
    TMessage MessageType
  | TPartialMessage ts_type
  | TPromise ts_type
  | TAsyncIterable ts_type
  | TUnion ts_type ts_type
  | THandlerContext
  | TFunction "ts_type list" ts_type
  | TNever

text \<open>
  The values a handler receives and returns. A promise is given by the value it resolves
  to. \<open>Promise\<close> and \<open>AsyncIterable\<close> are types of the platform.

  Modelled from the spec: an asynchronous iterable is pulled through an iterator, one
  call of \<open>next\<close> at a time. \<open>VAsyncSource it\<close> is an iterable in general: \<open>it k\<close> is its
  iteration number \<open>k\<close> (what the iterator of the call number \<open>k\<close> of
  \<open>[Symbol.asyncIterator]()\<close> delivers), and \<open>it k i\<close> is the answer to the call number
  \<open>i\<close> of \<open>next\<close> in it, \<open>Some v\<close> for the element \<open>v\<close> and \<open>None\<close> for done.
  \<open>VAsyncIterable vs\<close> is the iterable that delivers the elements of the list \<open>vs\<close> in
  its first iteration, each once, and nothing afterwards.
\<close>

datatype js_value =
    VObject object
  | VPromise js_value
  | VAsyncIterable "js_value list"
  | VAsyncSource "nat \<Rightarrow> nat \<Rightarrow> js_value option"

fun is_iterable :: "js_value \<Rightarrow> bool" where
  "is_iterable (VAsyncIterable vs) = True"
| "is_iterable (VAsyncSource it) = True"
| "is_iterable _ = False"

text \<open>The answer to the call number \<open>i\<close> of \<open>next\<close> in the iteration number \<open>k\<close>.\<close>

fun iteration :: "js_value \<Rightarrow> nat \<Rightarrow> nat \<Rightarrow> js_value option" where
  "iteration (VAsyncIterable vs) k i = (if k = 0 \<and> i < length vs then Some (vs ! i) else None)"
| "iteration (VAsyncSource it) k i = it k i"
| "iteration _ k i = None"

text \<open>The elements that the first \<open>n\<close> calls of \<open>next\<close> deliver in the iteration \<open>k\<close>.\<close>

fun delivered :: "js_value \<Rightarrow> nat \<Rightarrow> nat \<Rightarrow> js_value list" where
  "delivered v k 0 = []"
| "delivered v k (Suc n) =
     delivered v k n @ (case iteration v k n of None \<Rightarrow> [] | Some x \<Rightarrow> [x])"

text \<open>
  An iterable ends when each of its iterations is done after some number of calls. It
  restarts when an iteration after the first delivers an element again.
\<close>

definition ends :: "js_value \<Rightarrow> bool" where
  "ends v \<longleftrightarrow> (\<forall>k. \<exists>n. iteration v k n = None)"

definition restarts :: "js_value \<Rightarrow> bool" where
  "restarts v \<longleftrightarrow> (\<exists>k i. 0 < k \<and> iteration v k i \<noteq> None)"

text \<open>
  \<open>has_type v t\<close>: the value \<open>v\<close> is accepted where the type \<open>t\<close> is expected. The values
  above are data, so none of them is a handler context or a function, and none has the
  type \<open>never\<close>.
\<close>

fun has_type :: "js_value \<Rightarrow> ts_type \<Rightarrow> bool" where
  "has_type v (TUnion a b) = (has_type v a \<or> has_type v b)"
| "has_type (VObject m) (TMessage T) = is_message T m"
| "has_type (VObject m) (TPartialMessage (TMessage T)) = is_partial T m"
| "has_type (VPromise v) (TPromise t) = has_type v t"
| "has_type (VAsyncIterable vs) (TAsyncIterable t) = (\<forall>v \<in> set vs. has_type v t)"
| "has_type (VAsyncSource it) (TAsyncIterable t) = (\<forall>k i v. it k i = Some v \<longrightarrow> has_type v t)"
| "has_type _ _ = False"

subsection \<open>The four handler signatures\<close>

text \<open>
  \<^verbatim>\<open>
  export type UnaryImpl<I extends Message<I>, O extends Message<O>> = (
    request: I,
    context: HandlerContext,
  ) => Promise<O | PartialMessage<O>> | O | PartialMessage<O>;
  \<close>
\<close>

definition UnaryImpl :: "MessageType \<Rightarrow> MessageType \<Rightarrow> ts_type" where
  "UnaryImpl In Out =
     TFunction [TMessage In, THandlerContext]
       (TUnion
          (TUnion (TPromise (TUnion (TMessage Out) (TPartialMessage (TMessage Out))))
                  (TMessage Out))
          (TPartialMessage (TMessage Out)))"

text \<open>
  \<^verbatim>\<open>
  export type ClientStreamingImpl<I extends Message<I>, O extends Message<O>> = (
    requests: AsyncIterable<I>,
    context: HandlerContext,
  ) => Promise<O | PartialMessage<O>>;
  \<close>
\<close>

definition ClientStreamingImpl :: "MessageType \<Rightarrow> MessageType \<Rightarrow> ts_type" where
  "ClientStreamingImpl In Out =
     TFunction [TAsyncIterable (TMessage In), THandlerContext]
       (TPromise (TUnion (TMessage Out) (TPartialMessage (TMessage Out))))"

text \<open>
  \<^verbatim>\<open>
  export type ServerStreamingImpl<I extends Message<I>, O extends Message<O>> = (
    request: I,
    context: HandlerContext,
  ) => AsyncIterable<O | PartialMessage<O>>;
  \<close>
\<close>

definition ServerStreamingImpl :: "MessageType \<Rightarrow> MessageType \<Rightarrow> ts_type" where
  "ServerStreamingImpl In Out =
     TFunction [TMessage In, THandlerContext]
       (TAsyncIterable (TUnion (TMessage Out) (TPartialMessage (TMessage Out))))"

text \<open>
  \<^verbatim>\<open>
  export type BiDiStreamingImpl<I extends Message<I>, O extends Message<O>> = (
    requests: AsyncIterable<I>,
    context: HandlerContext,
  ) => AsyncIterable<O | PartialMessage<O>>;
  \<close>
\<close>

definition BiDiStreamingImpl :: "MessageType \<Rightarrow> MessageType \<Rightarrow> ts_type" where
  "BiDiStreamingImpl In Out =
     TFunction [TAsyncIterable (TMessage In), THandlerContext]
       (TAsyncIterable (TUnion (TMessage Out) (TPartialMessage (TMessage Out))))"

subsection \<open>Method descriptors and the conditional type \<open>MethodImpl\<close>\<close>

text \<open>
  A method descriptor, as the interface \<open>TypedMethodInfo\<close> declares it. The fields \<open>I\<close>
  and \<open>O\<close> of the source are \<open>inputType\<close> and \<open>outputType\<close> here.
\<close>

record TypedMethodInfo =
  kind :: MethodKind
  name :: string
  inputType :: MessageType
  outputType :: MessageType
  idempotency :: "MethodIdempotency option"

text \<open>
  The type \<open>TypedMethodInfo<I, O, K>\<close> has three arguments. \<open>K extends MethodKind\<close> is a
  type below the enum, that is a set of its members: a single member when the descriptor
  is declared with a literal kind, the whole enum (the default of the source) when the
  kind is not known statically. A descriptor has the type when its fields have the types
  of the arguments.
\<close>

definition has_method_type ::
    "TypedMethodInfo \<Rightarrow> MessageType \<Rightarrow> MessageType \<Rightarrow> MethodKind set \<Rightarrow> bool" where
  "has_method_type d In Out K \<longleftrightarrow> inputType d = In \<and> outputType d = Out \<and> kind d \<in> K"

text \<open>
  \<^verbatim>\<open>
  export type MethodImpl<M extends TypedMethodInfo> =
      M extends TypedMethodInfo<infer I, infer O, MethodKind.Unary>           ? UnaryImpl<I, O>
    : M extends TypedMethodInfo<infer I, infer O, MethodKind.ServerStreaming> ? ServerStreamingImpl<I, O>
    : M extends TypedMethodInfo<infer I, infer O, MethodKind.ClientStreaming> ? ClientStreamingImpl<I, O>
    : M extends TypedMethodInfo<infer I, infer O, MethodKind.BiDiStreaming>   ? BiDiStreamingImpl<I, O>
    : never;
  \<close>
  \<open>M\<close> is \<open>TypedMethodInfo<I, O, K>\<close>. The message types are inferred, so a test
  \<open>M extends TypedMethodInfo<infer I, infer O, k>\<close> holds exactly when the type of the
  field \<open>kind\<close> is assignable to the literal \<open>k\<close>, that is when \<open>K\<close> is below \<open>{k}\<close>. The
  tests are tried in the order of the source.
\<close>

definition MethodImpl :: "MessageType \<Rightarrow> MessageType \<Rightarrow> MethodKind set \<Rightarrow> ts_type" where
  "MethodImpl In Out K =
     (if K \<subseteq> {Unary} then UnaryImpl In Out
      else if K \<subseteq> {ServerStreaming} then ServerStreamingImpl In Out
      else if K \<subseteq> {ClientStreaming} then ClientStreamingImpl In Out
      else if K \<subseteq> {BiDiStreaming} then BiDiStreamingImpl In Out
      else TNever)"

subsection \<open>The handler context\<close>

text \<open>
  Modelled from the spec: \<open>AbortSignal\<close> and \<open>Headers\<close> are types of the platform. A
  signal is either active or cancelled and carries nothing else. Headers are a list of
  name and value pairs in the order of insertion, a name possibly several times.
\<close>

record AbortSignal =
  aborted :: bool

type_synonym Headers = "(string \<times> string) list"

text \<open>
  The interface \<open>HandlerContext\<close> of the source, field by field. \<open>timeoutMs\<close> has the type
  \<open>() => number | undefined\<close> and reads the clock; here it takes the current time in
  milliseconds as its argument, and \<open>None\<close> is \<open>undefined\<close>. The field \<open>method\<close> of
  the source is \<open>methodInfo\<close> here, a method descriptor, and \<open>service\<close> is the name of
  the service type. \<open>protocolName\<close> is a \<open>string\<close>, as the source declares it.
\<close>

record HandlerContext =
  methodInfo :: TypedMethodInfo
  service :: string
  signal :: AbortSignal
  timeoutMs :: "int \<Rightarrow> int option"
  requestMethod :: string
  requestHeader :: Headers
  responseHeader :: Headers
  responseTrailer :: Headers
  protocolName :: string

subsection \<open>The runtime that owns a context\<close>

text \<open>
  Modelled from the spec: the code that creates a context and drives a call is not in
  the source file, which only declares the interface. The spec has the transport layer
  construct one context per call, populated with the descriptors, the negotiated
  protocol, the HTTP method, a snapshot of the request headers and a deadline. The
  names of the three protocols are those of the comment on \<open>protocolName\<close> in the source.
\<close>

datatype Protocol = Connect | Grpc | GrpcWeb

fun protocolNameOf :: "Protocol \<Rightarrow> string" where
  "protocolNameOf Connect = ''connect''"
| "protocolNameOf Grpc = ''grpc''"
| "protocolNameOf GrpcWeb = ''grpc-web''"

record HandlerContextInit =
  initMethod :: TypedMethodInfo
  initService :: string
  initProtocol :: Protocol
  initRequestMethod :: string
  initRequestHeader :: Headers
  initDeadline :: "int option"

text \<open>
  Modelled from the spec: the timeout query. It gives nothing when no deadline is
  configured, and otherwise the remaining milliseconds, computed at each query from the
  original deadline and the current time, and never negative.
\<close>

fun remainingMs :: "int option \<Rightarrow> int \<Rightarrow> int option" where
  "remainingMs None now = None"
| "remainingMs (Some deadline) now = Some (max 0 (deadline - now))"

text \<open>
  Modelled from the spec: the construction of the context of a call. The signal is
  active, the response headers and trailers are empty, the rest comes from the
  transport.
\<close>

definition createHandlerContext :: "HandlerContextInit \<Rightarrow> HandlerContext" where
  "createHandlerContext init =
     \<lparr> methodInfo = initMethod init,
       service = initService init,
       signal = \<lparr> aborted = False \<rparr>,
       timeoutMs = remainingMs (initDeadline init),
       requestMethod = initRequestMethod init,
       requestHeader = initRequestHeader init,
       responseHeader = [],
       responseTrailer = [],
       protocolName = protocolNameOf (initProtocol init) \<rparr>"

text \<open>
  Modelled from the spec: a call with a streaming output, as a state machine. The state
  is the context, whether the response headers are frozen, what has been transmitted so
  far and the terminal status, once there is one. The transport reports a client
  disconnect or the lapse of the deadline; the handler adds response headers and
  trailers, yields output messages, and returns or fails.
\<close>

datatype Status = Ok | Canceled | DeadlineExceeded | Internal

datatype WireItem = WHeaders Headers | WMessage object | WEnd Status Headers

record CallState =
  ctx :: HandlerContext
  headersFrozen :: bool
  transmitted :: "WireItem list"
  terminal :: "Status option"

datatype CallEvent =
    ClientDisconnect
  | DeadlineReached
  | AppendResponseHeader string string
  | AppendResponseTrailer string string
  | Yield object
  | Return
  | Throw

text \<open>Modelled from the spec: the state in which the handler is invoked.\<close>

definition startCall :: "HandlerContextInit \<Rightarrow> CallState" where
  "startCall init =
     \<lparr> ctx = createHandlerContext init, headersFrozen = False,
       transmitted = [], terminal = None \<rparr>"

text \<open>
  Modelled from the spec: before anything of the response body is transmitted the
  runtime reads the response headers, sends them and freezes them.
\<close>

definition freezeHeaders :: "CallState \<Rightarrow> CallState" where
  "freezeHeaders s =
     (if headersFrozen s then s
      else s\<lparr> headersFrozen := True,
              transmitted := transmitted s @ [WHeaders (responseHeader (ctx s))] \<rparr>)"

text \<open>
  Modelled from the spec: the end of a call, with one terminal status, sent with the
  trailers after the headers. A call that has ended does not end again.
\<close>

definition finish :: "Status \<Rightarrow> CallState \<Rightarrow> CallState" where
  "finish st s =
     (if terminal s \<noteq> None then s
      else (let s' = freezeHeaders s
            in s'\<lparr> terminal := Some st,
                    transmitted := transmitted s' @ [WEnd st (responseTrailer (ctx s'))] \<rparr>))"

text \<open>
  Modelled from the spec: the one cancellation signal of the context is fired; firing
  it when it has fired is no change.
\<close>

definition fireSignal :: "CallState \<Rightarrow> CallState" where
  "fireSignal s =
     (if aborted (signal (ctx s)) then s
      else s\<lparr> ctx := (ctx s)\<lparr> signal := \<lparr> aborted = True \<rparr> \<rparr> \<rparr>)"

text \<open>
  Modelled from the spec: one event. Both causes of cancellation fire the same signal
  and end the call. A header added after the freeze is ignored, and so is a trailer
  added or a message yielded after the end of the call. \<open>run\<close> applies the events of a
  list in order.
\<close>

fun step :: "CallState \<Rightarrow> CallEvent \<Rightarrow> CallState" where
  "step s ClientDisconnect = finish Canceled (fireSignal s)"
| "step s DeadlineReached = finish DeadlineExceeded (fireSignal s)"
| "step s (AppendResponseHeader k v) =
     (if headersFrozen s then s
      else s\<lparr> ctx := (ctx s)\<lparr> responseHeader := responseHeader (ctx s) @ [(k, v)] \<rparr> \<rparr>)"
| "step s (AppendResponseTrailer k v) =
     (if terminal s \<noteq> None then s
      else s\<lparr> ctx := (ctx s)\<lparr> responseTrailer := responseTrailer (ctx s) @ [(k, v)] \<rparr> \<rparr>)"
| "step s (Yield m) =
     (if terminal s \<noteq> None then s
      else (let s' = freezeHeaders s
            in s'\<lparr> transmitted := transmitted s' @ [WMessage m] \<rparr>))"
| "step s Return = finish Ok s"
| "step s Throw = finish Internal s"

fun run :: "CallState \<Rightarrow> CallEvent list \<Rightarrow> CallState" where
  "run s [] = s"
| "run s (e # es) = run (step s e) es"

text \<open>How often the signal goes from active to cancelled along the events.\<close>

fun signalTransitions :: "CallState \<Rightarrow> CallEvent list \<Rightarrow> nat" where
  "signalTransitions s [] = 0"
| "signalTransitions s (e # es) =
     (if \<not> aborted (signal (ctx s)) \<and> aborted (signal (ctx (step s e))) then 1 else 0)
       + signalTransitions (step s e) es"

text \<open>The items of a transmission that are a block of headers.\<close>

fun is_headers :: "WireItem \<Rightarrow> bool" where
  "is_headers (WHeaders h) = True"
| "is_headers _ = False"

text \<open>The events that come from the handler, as opposed to the transport.\<close>

fun fromHandler :: "CallEvent \<Rightarrow> bool" where
  "fromHandler ClientDisconnect = False"
| "fromHandler DeadlineReached = False"
| "fromHandler _ = True"

text \<open>
  The state of the response: as long as the headers are not frozen nothing has been
  transmitted and the call has not ended; once they are frozen, the transmission starts
  with the response headers of the context and has no other block of headers.
\<close>

definition wire_ok :: "CallState \<Rightarrow> bool" where
  "wire_ok s \<longleftrightarrow>
     (if headersFrozen s
      then transmitted s \<noteq> []
           \<and> hd (transmitted s) = WHeaders (responseHeader (ctx s))
           \<and> \<not> list_ex is_headers (tl (transmitted s))
      else transmitted s = [] \<and> terminal s = None)"

subsection \<open>Example data\<close>

definition exampleRequest :: MessageType where
  "exampleRequest = \<lparr> typeName = ''example.Request'', fieldList = [(''id'', SNumber 0)] \<rparr>"

definition exampleResponse :: MessageType where
  "exampleResponse =
     \<lparr> typeName = ''example.Response'',
       fieldList = [(''id'', SNumber 0), (''name'', SString [])] \<rparr>"

definition exampleMethod :: TypedMethodInfo where
  "exampleMethod =
     \<lparr> kind = Unary, name = ''Get'', inputType = exampleRequest,
       outputType = exampleResponse, idempotency = None \<rparr>"

text \<open>
  An iterable of requests and one of partial responses that never are done, in any of
  their iterations.
\<close>

definition endlessRequests :: js_value where
  "endlessRequests = VAsyncSource (\<lambda>k i. Some (VObject [(''id'', SNumber (int i))]))"

definition endlessResponses :: js_value where
  "endlessResponses = VAsyncSource (\<lambda>k i. Some (VObject [(''name'', SString ''x'')]))"

definition exampleInit :: HandlerContextInit where
  "exampleInit =
     \<lparr> initMethod = exampleMethod, initService = ''example.Service'',
       initProtocol = GrpcWeb, initRequestMethod = ''POST'', initRequestHeader = [],
       initDeadline = Some 1000 \<rparr>"

section \<open>Facts about messages and types\<close>

lemma is_message_imp_partial: "is_message T m \<Longrightarrow> is_partial T m"
  by (simp add: is_message_def is_partial_def)

lemma has_type_output:
  "has_type v (TUnion (TMessage T) (TPartialMessage (TMessage T)))
     \<longleftrightarrow> (\<exists>m. v = VObject m \<and> is_partial T m)"
  by (cases v) (auto dest: is_message_imp_partial)

lemma has_type_message: "has_type v (TMessage T) \<longleftrightarrow> (\<exists>m. v = VObject m \<and> is_message T m)"
  by (cases v) auto

lemma has_type_promise: "has_type v (TPromise t) \<longleftrightarrow> (\<exists>w. v = VPromise w \<and> has_type w t)"
  by (cases v) auto

lemma has_type_iterable:
  "has_type v (TAsyncIterable t)
     \<longleftrightarrow> is_iterable v \<and> (\<forall>k i x. iteration v k i = Some x \<longrightarrow> has_type x t)"
proof (cases v)
  case (VAsyncIterable vs)
  have "(\<forall>x \<in> set vs. has_type x t)
      \<longleftrightarrow> (\<forall>k i x. iteration (VAsyncIterable vs) k i = Some x \<longrightarrow> has_type x t)"
    by (auto simp: all_set_conv_all_nth split: if_splits)
  with VAsyncIterable show ?thesis by simp
qed simp_all

lemma ends_list: "ends (VAsyncIterable vs)"
proof -
  have "iteration (VAsyncIterable vs) k (length vs) = None" for k
    by simp
  then show ?thesis unfolding ends_def by blast
qed

lemma not_restarts_list: "\<not> restarts (VAsyncIterable vs)"
  by (auto simp: restarts_def)

lemma delivered_length: "length (delivered v k n) \<le> n"
  by (induction n) (auto split: option.splits)

lemma delivered_prefix:
  "(\<forall>i<n. iteration v k i = iteration w k i) \<Longrightarrow> delivered v k n = delivered w k n"
  by (induction n) simp_all

lemma completeMessage_is_message: "is_message T (completeMessage T m)"
  by (simp add: is_message_def completeMessage_def comp_def case_prod_unfold)

lemma map_of_complete:
  "map_of (map (\<lambda>(f, d). (f, case map_of m f of Some v \<Rightarrow> v | None \<Rightarrow> d)) xs) f =
     (case map_of xs f of None \<Rightarrow> None
      | Some d \<Rightarrow> Some (case map_of m f of Some v \<Rightarrow> v | None \<Rightarrow> d))"
  by (induction xs) (auto split: option.splits)

lemma completeMessage_keeps:
  assumes "is_partial T m" and "map_of m f = Some v"
  shows "map_of (completeMessage T m) f = Some v"
proof -
  from assms(2) have "f \<in> fst ` set m"
    by (metis map_of_eq_None_iff option.distinct(1))
  with assms(1) have "f \<in> fst ` set (fieldList T)"
    by (auto simp: is_partial_def)
  then obtain d where "map_of (fieldList T) f = Some d"
    by (metis map_of_eq_None_iff not_Some_eq)
  with assms(2) show ?thesis
    by (simp add: completeMessage_def map_of_complete)
qed

lemma completeMessage_default:
  assumes "map_of m f = None" and "map_of (fieldList T) f = Some d"
  shows "map_of (completeMessage T m) f = Some d"
  using assms by (simp add: completeMessage_def map_of_complete)

section \<open>The dispatch from the kind of a method to its handler signature\<close>

text \<open>
  Claim C1. Let \<open>d\<close> be a method descriptor of the type \<open>TypedMethodInfo<I, O, K>\<close>. When
  \<open>K\<close> is one of the four literal kinds, \<open>MethodImpl\<close> is the signature of that kind:
  \<open>UnaryImpl\<close> for unary, \<open>ServerStreamingImpl\<close> for server-streaming,
  \<open>ClientStreamingImpl\<close> for client-streaming, \<open>BiDiStreamingImpl\<close> for bidi-streaming.
  The four signatures differ from each other and from \<open>never\<close>, so the kind decides
  exactly one signature. When \<open>K\<close> is any other type that the kind of \<open>d\<close> belongs to,
  \<open>MethodImpl\<close> is \<open>never\<close>: no handler can be bound to the descriptor, which the type
  checker reports when the handler is bound, before any call. (The empty type \<open>never\<close>
  for \<open>K\<close> has no descriptor.)
\<close>

theorem MethodImpl_total_exhaustive:
  assumes "has_method_type d In Out K"
  shows "(K = {Unary} \<longrightarrow> MethodImpl In Out K = UnaryImpl In Out)
       \<and> (K = {ServerStreaming} \<longrightarrow> MethodImpl In Out K = ServerStreamingImpl In Out)
       \<and> (K = {ClientStreaming} \<longrightarrow> MethodImpl In Out K = ClientStreamingImpl In Out)
       \<and> (K = {BiDiStreaming} \<longrightarrow> MethodImpl In Out K = BiDiStreamingImpl In Out)
       \<and> distinct [UnaryImpl In Out, ServerStreamingImpl In Out, ClientStreamingImpl In Out,
                    BiDiStreamingImpl In Out, TNever]
       \<and> (K \<noteq> {kind d} \<longrightarrow> MethodImpl In Out K = TNever)"
proof -
  have sigs: "distinct [UnaryImpl In Out, ServerStreamingImpl In Out, ClientStreamingImpl In Out,
                    BiDiStreamingImpl In Out, TNever]"
    by (simp add: UnaryImpl_def ServerStreamingImpl_def ClientStreamingImpl_def
        BiDiStreamingImpl_def)
  have lit: "MethodImpl In Out {Unary} = UnaryImpl In Out"
    "MethodImpl In Out {ServerStreaming} = ServerStreamingImpl In Out"
    "MethodImpl In Out {ClientStreaming} = ClientStreamingImpl In Out"
    "MethodImpl In Out {BiDiStreaming} = BiDiStreamingImpl In Out"
    by (simp_all add: MethodImpl_def)
  have wide: "MethodImpl In Out K = TNever" if "K \<noteq> {kind d}"
  proof -
    from assms have mem: "kind d \<in> K" by (simp add: has_method_type_def)
    have "\<not> K \<subseteq> {k}" for k
    proof
      assume "K \<subseteq> {k}"
      with mem have "K = {kind d}" by auto
      with that show False by simp
    qed
    then show ?thesis by (simp add: MethodImpl_def)
  qed
  from sigs lit wide show ?thesis by blast
qed

text \<open>
  The example method is unary. With its literal kind the dispatch gives \<open>UnaryImpl\<close>;
  with the whole enum for a kind it gives \<open>never\<close>.
\<close>

theorem MethodImpl_total_exhaustive_witness:
  "has_method_type exampleMethod exampleRequest exampleResponse {Unary}
   \<and> MethodImpl exampleRequest exampleResponse {Unary} = UnaryImpl exampleRequest exampleResponse
   \<and> has_method_type exampleMethod exampleRequest exampleResponse UNIV
   \<and> MethodImpl exampleRequest exampleResponse UNIV = TNever"
proof -
  have lit: "has_method_type exampleMethod exampleRequest exampleResponse {Unary}"
    by (simp add: has_method_type_def exampleMethod_def)
  have wide: "has_method_type exampleMethod exampleRequest exampleResponse UNIV"
    by (simp add: has_method_type_def exampleMethod_def)
  have ne: "(UNIV :: MethodKind set) \<noteq> {kind exampleMethod}"
    by (auto simp: exampleMethod_def)
  from MethodImpl_total_exhaustive [OF lit] MethodImpl_total_exhaustive [OF wide] lit wide ne
  show ?thesis by simp
qed

section \<open>The four signatures\<close>

text \<open>
  Claim C2. The signature of a unary handler has two parameters, one input message and
  the handler context. What it returns is exactly one output message, possibly partial,
  either as the value itself or as a promise of it, and nothing else. A partial output
  is completed to a message of the output type: the fields the handler set keep their
  values and the others get their declared defaults.
\<close>

theorem UnaryImpl_signature:
  "\<exists>r. UnaryImpl In Out = TFunction [TMessage In, THandlerContext] r
     \<and> (\<forall>x. has_type x (TMessage In) \<longleftrightarrow> (\<exists>m. x = VObject m \<and> is_message In m))
     \<and> (\<forall>v. has_type v r \<longleftrightarrow>
            (\<exists>m. is_partial Out m \<and> (v = VObject m \<or> v = VPromise (VObject m))))
     \<and> (\<forall>m. is_partial Out m \<longrightarrow>
            is_message Out (completeMessage Out m)
            \<and> (\<forall>f v. map_of m f = Some v \<longrightarrow> map_of (completeMessage Out m) f = Some v)
            \<and> (\<forall>f d. map_of m f = None \<and> map_of (fieldList Out) f = Some d \<longrightarrow>
                  map_of (completeMessage Out m) f = Some d))"
proof -
  let ?out = "TUnion (TMessage Out) (TPartialMessage (TMessage Out))"
  let ?r = "TUnion (TUnion (TPromise ?out) (TMessage Out)) (TPartialMessage (TMessage Out))"
  have sig: "UnaryImpl In Out = TFunction [TMessage In, THandlerContext] ?r"
    by (simp add: UnaryImpl_def)
  have inp: "\<forall>x. has_type x (TMessage In) \<longleftrightarrow> (\<exists>m. x = VObject m \<and> is_message In m)"
    by (simp add: has_type_message)
  have ret: "has_type v ?r \<longleftrightarrow>
      (\<exists>m. is_partial Out m \<and> (v = VObject m \<or> v = VPromise (VObject m)))" for v
  proof -
    have "has_type v ?r \<longleftrightarrow> has_type v (TPromise ?out) \<or> has_type v ?out"
      by auto
    also have "\<dots> \<longleftrightarrow> (\<exists>m. is_partial Out m \<and> (v = VObject m \<or> v = VPromise (VObject m)))"
      unfolding has_type_promise has_type_output by auto
    finally show ?thesis .
  qed
  have compl: "is_message Out (completeMessage Out m)
      \<and> (\<forall>f v. map_of m f = Some v \<longrightarrow> map_of (completeMessage Out m) f = Some v)
      \<and> (\<forall>f d. map_of m f = None \<and> map_of (fieldList Out) f = Some d \<longrightarrow>
            map_of (completeMessage Out m) f = Some d)" if "is_partial Out m" for m
    using that completeMessage_is_message completeMessage_keeps completeMessage_default
    by blast
  show ?thesis
  proof (intro exI conjI allI impI)
    show "UnaryImpl In Out = TFunction [TMessage In, THandlerContext] ?r" by (rule sig)
  qed (use inp ret compl in simp_all)
qed

text \<open>
  The request \<open>{id: 7}\<close> is an input message. The partial response \<open>{name: "x"}\<close> may be
  returned as it is or in a promise; completed, it has the default for \<open>id\<close>, not the
  7 of the request, and \<open>name\<close> is \<open>"x"\<close>.
\<close>

theorem UnaryImpl_signature_witness:
  "\<exists>r. UnaryImpl exampleRequest exampleResponse
          = TFunction [TMessage exampleRequest, THandlerContext] r
     \<and> has_type (VObject [(''id'', SNumber 7)]) (TMessage exampleRequest)
     \<and> is_partial exampleResponse [(''name'', SString ''x'')]
     \<and> has_type (VObject [(''name'', SString ''x'')]) r
     \<and> has_type (VPromise (VObject [(''name'', SString ''x'')])) r
     \<and> completeMessage exampleResponse [(''name'', SString ''x'')]
          = [(''id'', SNumber 0), (''name'', SString ''x'')]
     \<and> is_message exampleResponse (completeMessage exampleResponse [(''name'', SString ''x'')])"
proof -
  have p: "is_partial exampleResponse [(''name'', SString ''x'')]"
    by (simp add: is_partial_def exampleResponse_def)
  have q: "is_message exampleRequest [(''id'', SNumber 7)]"
    by (simp add: is_message_def exampleRequest_def)
  have c: "completeMessage exampleResponse [(''name'', SString ''x'')]
          = [(''id'', SNumber 0), (''name'', SString ''x'')]"
    by (simp add: completeMessage_def exampleResponse_def)
  have m: "is_message exampleResponse [(''id'', SNumber 0), (''name'', SString ''x'')]"
    by (simp add: is_message_def exampleResponse_def)
  from UnaryImpl_signature [of exampleRequest exampleResponse] p q c m show ?thesis
    apply (elim exE conjE)
    subgoal for r by (rule exI [of _ r]) simp
    done
qed

text \<open>
  Claim C3, as amended. The signature of a client-streaming handler has two parameters,
  an asynchronous sequence of input messages and the handler context. The values of the
  first are exactly the iterables all of whose elements, in every iteration, are input
  messages. Among them are the sequences given by a list, which end and do not
  restart, and the sequence that yields nothing. The sequence is pulled lazily: a call
  of \<open>next\<close> delivers one element at most, and what the first \<open>n\<close> calls deliver depends
  on the first \<open>n\<close> answers only. What the handler returns is a promise of exactly one
  output message, possibly partial, and nothing else.
\<close>

theorem ClientStreamingImpl_signature:
  "\<exists>r. ClientStreamingImpl In Out
          = TFunction [TAsyncIterable (TMessage In), THandlerContext] r
     \<and> (\<forall>x. has_type x (TAsyncIterable (TMessage In)) \<longleftrightarrow>
            is_iterable x
            \<and> (\<forall>k i y. iteration x k i = Some y \<longrightarrow> (\<exists>m. y = VObject m \<and> is_message In m)))
     \<and> (\<forall>vs. has_type (VAsyncIterable vs) (TAsyncIterable (TMessage In)) \<longleftrightarrow>
            (\<forall>y \<in> set vs. \<exists>m. y = VObject m \<and> is_message In m))
     \<and> (\<forall>vs. ends (VAsyncIterable vs) \<and> \<not> restarts (VAsyncIterable vs))
     \<and> has_type (VAsyncIterable []) (TAsyncIterable (TMessage In))
     \<and> (\<forall>x k n. length (delivered x k n) \<le> n)
     \<and> (\<forall>x y k n. (\<forall>i<n. iteration x k i = iteration y k i) \<longrightarrow>
            delivered x k n = delivered y k n)
     \<and> (\<forall>v. has_type v r \<longleftrightarrow> (\<exists>m. is_partial Out m \<and> v = VPromise (VObject m)))"
proof -
  let ?r = "TPromise (TUnion (TMessage Out) (TPartialMessage (TMessage Out)))"
  have sig: "ClientStreamingImpl In Out
      = TFunction [TAsyncIterable (TMessage In), THandlerContext] ?r"
    by (simp add: ClientStreamingImpl_def)
  have inp: "has_type x (TAsyncIterable (TMessage In)) \<longleftrightarrow>
      is_iterable x
      \<and> (\<forall>k i y. iteration x k i = Some y \<longrightarrow> (\<exists>m. y = VObject m \<and> is_message In m))" for x
    unfolding has_type_iterable has_type_message by simp
  have lst: "has_type (VAsyncIterable vs) (TAsyncIterable (TMessage In)) \<longleftrightarrow>
      (\<forall>y \<in> set vs. \<exists>m. y = VObject m \<and> is_message In m)" for vs
    by (simp add: has_type_message)
  have fin: "ends (VAsyncIterable vs) \<and> \<not> restarts (VAsyncIterable vs)" for vs
    by (simp add: ends_list not_restarts_list)
  have ret: "has_type v ?r \<longleftrightarrow> (\<exists>m. is_partial Out m \<and> v = VPromise (VObject m))" for v
    unfolding has_type_promise has_type_output by auto
  show ?thesis
  proof (intro exI conjI allI impI)
    show "ClientStreamingImpl In Out
      = TFunction [TAsyncIterable (TMessage In), THandlerContext] ?r" by (rule sig)
  qed (use inp lst fin ret delivered_length delivered_prefix in simp_all)
qed

text \<open>
  Claim C3, as the spec states it, fails: the parameter of the signature admits a
  sequence of requests that never ends and that restarts in each further iteration.
\<close>

theorem ClientStreamingImpl_input_counterexample:
  "ClientStreamingImpl exampleRequest exampleResponse
     = TFunction [TAsyncIterable (TMessage exampleRequest), THandlerContext]
         (TPromise (TUnion (TMessage exampleResponse) (TPartialMessage (TMessage exampleResponse))))
   \<and> has_type endlessRequests (TAsyncIterable (TMessage exampleRequest))
   \<and> \<not> ends endlessRequests
   \<and> restarts endlessRequests"
proof (intro conjI)
  show "ClientStreamingImpl exampleRequest exampleResponse
     = TFunction [TAsyncIterable (TMessage exampleRequest), THandlerContext]
         (TPromise (TUnion (TMessage exampleResponse) (TPartialMessage (TMessage exampleResponse))))"
    by (simp add: ClientStreamingImpl_def)
  show "has_type endlessRequests (TAsyncIterable (TMessage exampleRequest))"
    by (auto simp: endlessRequests_def is_message_def exampleRequest_def)
  show "\<not> ends endlessRequests"
    by (simp add: ends_def endlessRequests_def)
  have "0 < (1::nat) \<and> iteration endlessRequests 1 0 \<noteq> None"
    by (simp add: endlessRequests_def)
  then show "restarts endlessRequests"
    unfolding restarts_def by blast
qed

text \<open>
  The empty sequence, a sequence of two requests and the endless sequence are inputs;
  two calls of \<open>next\<close> deliver the first two requests of the endless one. The partial
  response in a promise is a result, the bare partial response is not.
\<close>

theorem ClientStreamingImpl_signature_witness:
  "\<exists>r. ClientStreamingImpl exampleRequest exampleResponse
          = TFunction [TAsyncIterable (TMessage exampleRequest), THandlerContext] r
     \<and> has_type (VAsyncIterable []) (TAsyncIterable (TMessage exampleRequest))
     \<and> has_type (VAsyncIterable [VObject [(''id'', SNumber 7)], VObject [(''id'', SNumber 8)]])
          (TAsyncIterable (TMessage exampleRequest))
     \<and> has_type endlessRequests (TAsyncIterable (TMessage exampleRequest))
     \<and> delivered endlessRequests 0 (Suc (Suc 0))
          = [VObject [(''id'', SNumber 0)], VObject [(''id'', SNumber 1)]]
     \<and> length (delivered endlessRequests 0 (Suc (Suc 0))) \<le> Suc (Suc 0)
     \<and> is_partial exampleResponse [(''name'', SString ''x'')]
     \<and> has_type (VPromise (VObject [(''name'', SString ''x'')])) r
     \<and> \<not> has_type (VObject [(''name'', SString ''x'')]) r"
proof -
  have p: "is_partial exampleResponse [(''name'', SString ''x'')]"
    by (simp add: is_partial_def exampleResponse_def)
  have q: "is_iterable endlessRequests
      \<and> (\<forall>k i y. iteration endlessRequests k i = Some y \<longrightarrow>
            (\<exists>m. y = VObject m \<and> is_message exampleRequest m))"
    by (auto simp: endlessRequests_def is_message_def exampleRequest_def)
  have two: "\<forall>y \<in> set [VObject [(''id'', SNumber 7)], VObject [(''id'', SNumber 8)]].
      \<exists>m. y = VObject m \<and> is_message exampleRequest m"
    by (simp add: is_message_def exampleRequest_def)
  have d: "delivered endlessRequests 0 (Suc (Suc 0))
          = [VObject [(''id'', SNumber 0)], VObject [(''id'', SNumber 1)]]"
    by (simp add: endlessRequests_def)
  from ClientStreamingImpl_signature [of exampleRequest exampleResponse]
  obtain r where sig: "ClientStreamingImpl exampleRequest exampleResponse
          = TFunction [TAsyncIterable (TMessage exampleRequest), THandlerContext] r"
    and inp: "\<forall>x. has_type x (TAsyncIterable (TMessage exampleRequest)) \<longleftrightarrow>
            is_iterable x
            \<and> (\<forall>k i y. iteration x k i = Some y \<longrightarrow>
                  (\<exists>m. y = VObject m \<and> is_message exampleRequest m))"
    and lst: "\<forall>vs. has_type (VAsyncIterable vs) (TAsyncIterable (TMessage exampleRequest)) \<longleftrightarrow>
            (\<forall>y \<in> set vs. \<exists>m. y = VObject m \<and> is_message exampleRequest m)"
    and emp: "has_type (VAsyncIterable []) (TAsyncIterable (TMessage exampleRequest))"
    and len: "\<forall>x k n. length (delivered x k n) \<le> n"
    and ret: "\<forall>v. has_type v r \<longleftrightarrow>
            (\<exists>m. is_partial exampleResponse m \<and> v = VPromise (VObject m))"
    by (elim exE conjE)
  from inp q have a: "has_type endlessRequests (TAsyncIterable (TMessage exampleRequest))"
    by (simp del: has_type.simps)
  from lst two
  have b: "has_type (VAsyncIterable [VObject [(''id'', SNumber 7)], VObject [(''id'', SNumber 8)]])
          (TAsyncIterable (TMessage exampleRequest))"
    by (simp only:)
  from len have c: "length (delivered endlessRequests 0 (Suc (Suc 0))) \<le> Suc (Suc 0)"
    by (simp only:)
  from ret p have e: "has_type (VPromise (VObject [(''name'', SString ''x'')])) r"
    and f: "\<not> has_type (VObject [(''name'', SString ''x'')]) r"
    by simp_all
  from sig emp b a d c p e f show ?thesis
    by (intro exI [of _ r] conjI)
qed

text \<open>
  Claim C4, as amended. The signature of a server-streaming handler takes one input
  message and the handler context, that of a bidi-streaming handler takes an
  asynchronous sequence of input messages and the handler context. What both return
  are exactly the iterables all of whose elements, in every iteration, are output
  messages, possibly partial: every sequence of output messages given by a list is a
  result, also the empty one, and nothing but such iterables is. The sequences given by
  a list end and do not restart. A sequence is pulled lazily: a call of \<open>next\<close> delivers
  one element at most, and what the first \<open>n\<close> calls deliver depends on the first \<open>n\<close>
  answers only.
\<close>

theorem streaming_output_signatures:
  "(\<exists>r. ServerStreamingImpl In Out = TFunction [TMessage In, THandlerContext] r
      \<and> (\<forall>v. has_type v r \<longleftrightarrow>
            is_iterable v
            \<and> (\<forall>k i y. iteration v k i = Some y \<longrightarrow> (\<exists>m. y = VObject m \<and> is_partial Out m)))
      \<and> (\<forall>vs. has_type (VAsyncIterable vs) r \<longleftrightarrow>
            (\<forall>y \<in> set vs. \<exists>m. y = VObject m \<and> is_partial Out m))
      \<and> has_type (VAsyncIterable []) r)
   \<and> (\<exists>r. BiDiStreamingImpl In Out
             = TFunction [TAsyncIterable (TMessage In), THandlerContext] r
      \<and> (\<forall>v. has_type v r \<longleftrightarrow>
            is_iterable v
            \<and> (\<forall>k i y. iteration v k i = Some y \<longrightarrow> (\<exists>m. y = VObject m \<and> is_partial Out m)))
      \<and> (\<forall>vs. has_type (VAsyncIterable vs) r \<longleftrightarrow>
            (\<forall>y \<in> set vs. \<exists>m. y = VObject m \<and> is_partial Out m))
      \<and> has_type (VAsyncIterable []) r)
   \<and> (\<forall>x. has_type x (TMessage In) \<longleftrightarrow> (\<exists>m. x = VObject m \<and> is_message In m))
   \<and> (\<forall>x. has_type x (TAsyncIterable (TMessage In)) \<longleftrightarrow>
          is_iterable x
          \<and> (\<forall>k i y. iteration x k i = Some y \<longrightarrow> (\<exists>m. y = VObject m \<and> is_message In m)))
   \<and> (\<forall>vs. ends (VAsyncIterable vs) \<and> \<not> restarts (VAsyncIterable vs))
   \<and> (\<forall>x k n. length (delivered x k n) \<le> n)
   \<and> (\<forall>x y k n. (\<forall>i<n. iteration x k i = iteration y k i) \<longrightarrow>
          delivered x k n = delivered y k n)"
proof -
  let ?r = "TAsyncIterable (TUnion (TMessage Out) (TPartialMessage (TMessage Out)))"
  have ss: "ServerStreamingImpl In Out = TFunction [TMessage In, THandlerContext] ?r"
    by (simp add: ServerStreamingImpl_def)
  have bidi: "BiDiStreamingImpl In Out
      = TFunction [TAsyncIterable (TMessage In), THandlerContext] ?r"
    by (simp add: BiDiStreamingImpl_def)
  have ret: "\<forall>v. has_type v ?r \<longleftrightarrow>
      is_iterable v
      \<and> (\<forall>k i y. iteration v k i = Some y \<longrightarrow> (\<exists>m. y = VObject m \<and> is_partial Out m))"
    unfolding has_type_iterable has_type_output by simp
  have lst: "\<forall>vs. has_type (VAsyncIterable vs) ?r \<longleftrightarrow>
      (\<forall>y \<in> set vs. \<exists>m. y = VObject m \<and> is_partial Out m)"
    using has_type_output by simp
  have empty: "has_type (VAsyncIterable []) ?r"
    by simp
  have one: "\<forall>x. has_type x (TMessage In) \<longleftrightarrow> (\<exists>m. x = VObject m \<and> is_message In m)"
    by (simp add: has_type_message)
  have many: "\<forall>x. has_type x (TAsyncIterable (TMessage In)) \<longleftrightarrow>
      is_iterable x
      \<and> (\<forall>k i y. iteration x k i = Some y \<longrightarrow> (\<exists>m. y = VObject m \<and> is_message In m))"
    unfolding has_type_iterable has_type_message by simp
  have fin: "\<forall>vs. ends (VAsyncIterable vs) \<and> \<not> restarts (VAsyncIterable vs)"
    by (simp add: ends_list not_restarts_list)
  have len: "\<forall>x k n. length (delivered x k n) \<le> n"
    by (simp add: delivered_length)
  have pre: "\<forall>x y k n. (\<forall>i<n. iteration x k i = iteration y k i) \<longrightarrow>
      delivered x k n = delivered y k n"
    using delivered_prefix by blast
  from ss ret lst empty
  have a: "\<exists>r. ServerStreamingImpl In Out = TFunction [TMessage In, THandlerContext] r
      \<and> (\<forall>v. has_type v r \<longleftrightarrow>
            is_iterable v
            \<and> (\<forall>k i y. iteration v k i = Some y \<longrightarrow> (\<exists>m. y = VObject m \<and> is_partial Out m)))
      \<and> (\<forall>vs. has_type (VAsyncIterable vs) r \<longleftrightarrow>
            (\<forall>y \<in> set vs. \<exists>m. y = VObject m \<and> is_partial Out m))
      \<and> has_type (VAsyncIterable []) r"
    by (intro exI [of _ ?r] conjI)
  from bidi ret lst empty
  have b: "\<exists>r. BiDiStreamingImpl In Out
             = TFunction [TAsyncIterable (TMessage In), THandlerContext] r
      \<and> (\<forall>v. has_type v r \<longleftrightarrow>
            is_iterable v
            \<and> (\<forall>k i y. iteration v k i = Some y \<longrightarrow> (\<exists>m. y = VObject m \<and> is_partial Out m)))
      \<and> (\<forall>vs. has_type (VAsyncIterable vs) r \<longleftrightarrow>
            (\<forall>y \<in> set vs. \<exists>m. y = VObject m \<and> is_partial Out m))
      \<and> has_type (VAsyncIterable []) r"
    by (intro exI [of _ ?r] conjI)
  from a b one many fin len pre show ?thesis by (intro conjI)
qed

text \<open>
  Claim C4, as the spec states it, fails: the return type of both signatures admits a
  sequence of responses that never ends and that restarts in each further iteration,
  and the first parameter of the bidi-streaming signature admits such a sequence of
  requests.
\<close>

theorem streaming_output_counterexample:
  "ServerStreamingImpl exampleRequest exampleResponse
     = TFunction [TMessage exampleRequest, THandlerContext]
         (TAsyncIterable (TUnion (TMessage exampleResponse)
            (TPartialMessage (TMessage exampleResponse))))
   \<and> BiDiStreamingImpl exampleRequest exampleResponse
     = TFunction [TAsyncIterable (TMessage exampleRequest), THandlerContext]
         (TAsyncIterable (TUnion (TMessage exampleResponse)
            (TPartialMessage (TMessage exampleResponse))))
   \<and> has_type endlessResponses
        (TAsyncIterable (TUnion (TMessage exampleResponse)
            (TPartialMessage (TMessage exampleResponse))))
   \<and> \<not> ends endlessResponses
   \<and> restarts endlessResponses
   \<and> has_type endlessRequests (TAsyncIterable (TMessage exampleRequest))
   \<and> \<not> ends endlessRequests
   \<and> restarts endlessRequests"
proof (intro conjI)
  show "ServerStreamingImpl exampleRequest exampleResponse
     = TFunction [TMessage exampleRequest, THandlerContext]
         (TAsyncIterable (TUnion (TMessage exampleResponse)
            (TPartialMessage (TMessage exampleResponse))))"
    by (simp add: ServerStreamingImpl_def)
  show "BiDiStreamingImpl exampleRequest exampleResponse
     = TFunction [TAsyncIterable (TMessage exampleRequest), THandlerContext]
         (TAsyncIterable (TUnion (TMessage exampleResponse)
            (TPartialMessage (TMessage exampleResponse))))"
    by (simp add: BiDiStreamingImpl_def)
  show "has_type endlessResponses
        (TAsyncIterable (TUnion (TMessage exampleResponse)
            (TPartialMessage (TMessage exampleResponse))))"
    by (auto simp: endlessResponses_def is_partial_def exampleResponse_def)
  show "\<not> ends endlessResponses"
    by (simp add: ends_def endlessResponses_def)
  have "0 < (1::nat) \<and> iteration endlessResponses 1 0 \<noteq> None"
    by (simp add: endlessResponses_def)
  then show "restarts endlessResponses"
    unfolding restarts_def by blast
  show "has_type endlessRequests (TAsyncIterable (TMessage exampleRequest))"
    by (auto simp: endlessRequests_def is_message_def exampleRequest_def)
  show "\<not> ends endlessRequests"
    by (simp add: ends_def endlessRequests_def)
  have "0 < (1::nat) \<and> iteration endlessRequests 1 0 \<noteq> None"
    by (simp add: endlessRequests_def)
  then show "restarts endlessRequests"
    unfolding restarts_def by blast
qed

text \<open>
  For the example types: the empty sequence, a sequence of one partial response and the
  endless sequence of partial responses are results of both signatures, a single object
  is not; one request is an input of the first, a sequence of requests of the second.
\<close>

theorem streaming_output_signatures_witness:
  "(\<exists>r. ServerStreamingImpl exampleRequest exampleResponse
           = TFunction [TMessage exampleRequest, THandlerContext] r
      \<and> has_type (VAsyncIterable []) r
      \<and> has_type (VAsyncIterable [VObject [(''name'', SString ''x'')]]) r
      \<and> has_type endlessResponses r
      \<and> \<not> has_type (VObject [(''name'', SString ''x'')]) r)
   \<and> (\<exists>r. BiDiStreamingImpl exampleRequest exampleResponse
             = TFunction [TAsyncIterable (TMessage exampleRequest), THandlerContext] r
      \<and> has_type (VAsyncIterable []) r
      \<and> has_type (VAsyncIterable [VObject [(''name'', SString ''x'')]]) r
      \<and> has_type endlessResponses r
      \<and> \<not> has_type (VObject [(''name'', SString ''x'')]) r)
   \<and> has_type (VObject [(''id'', SNumber 7)]) (TMessage exampleRequest)
   \<and> has_type (VAsyncIterable [VObject [(''id'', SNumber 7)]])
        (TAsyncIterable (TMessage exampleRequest))
   \<and> delivered (VAsyncIterable [VObject [(''id'', SNumber 7)]]) 0 (Suc (Suc 0))
        = [VObject [(''id'', SNumber 7)]]"
proof -
  have q: "is_message exampleRequest [(''id'', SNumber 7)]"
    by (simp add: is_message_def exampleRequest_def)
  have p: "\<forall>y \<in> set [VObject [(''name'', SString ''x'')]].
      \<exists>m. y = VObject m \<and> is_partial exampleResponse m"
    by (simp add: is_partial_def exampleResponse_def)
  have e: "is_iterable endlessResponses
      \<and> (\<forall>k i y. iteration endlessResponses k i = Some y \<longrightarrow>
            (\<exists>m. y = VObject m \<and> is_partial exampleResponse m))"
    by (auto simp: endlessResponses_def is_partial_def exampleResponse_def)
  have o: "\<not> is_iterable (VObject [(''name'', SString ''x'')])"
    by simp
  have d: "delivered (VAsyncIterable [VObject [(''id'', SNumber 7)]]) 0 (Suc (Suc 0))
        = [VObject [(''id'', SNumber 7)]]"
    by simp
  have i: "has_type (VAsyncIterable [VObject [(''id'', SNumber 7)]])
        (TAsyncIterable (TMessage exampleRequest))"
    using q by simp
  from streaming_output_signatures [of exampleRequest exampleResponse]
  obtain r r' where
    ss: "ServerStreamingImpl exampleRequest exampleResponse
           = TFunction [TMessage exampleRequest, THandlerContext] r"
    and ssr: "\<forall>v. has_type v r \<longleftrightarrow>
            is_iterable v
            \<and> (\<forall>k i y. iteration v k i = Some y \<longrightarrow>
                  (\<exists>m. y = VObject m \<and> is_partial exampleResponse m))"
    and ssl: "\<forall>vs. has_type (VAsyncIterable vs) r \<longleftrightarrow>
            (\<forall>y \<in> set vs. \<exists>m. y = VObject m \<and> is_partial exampleResponse m)"
    and sse: "has_type (VAsyncIterable []) r"
    and bd: "BiDiStreamingImpl exampleRequest exampleResponse
             = TFunction [TAsyncIterable (TMessage exampleRequest), THandlerContext] r'"
    and bdr: "\<forall>v. has_type v r' \<longleftrightarrow>
            is_iterable v
            \<and> (\<forall>k i y. iteration v k i = Some y \<longrightarrow>
                  (\<exists>m. y = VObject m \<and> is_partial exampleResponse m))"
    and bdl: "\<forall>vs. has_type (VAsyncIterable vs) r' \<longleftrightarrow>
            (\<forall>y \<in> set vs. \<exists>m. y = VObject m \<and> is_partial exampleResponse m)"
    and bde: "has_type (VAsyncIterable []) r'"
    and one: "\<forall>x. has_type x (TMessage exampleRequest) \<longleftrightarrow>
            (\<exists>m. x = VObject m \<and> is_message exampleRequest m)"
    by (elim exE conjE)
  from ssl p have s1: "has_type (VAsyncIterable [VObject [(''name'', SString ''x'')]]) r"
    by (simp only:)
  from e have s2: "has_type endlessResponses r"
    by (rule iffD2 [OF ssr [rule_format]])
  from ssr o have s3: "\<not> has_type (VObject [(''name'', SString ''x'')]) r"
    by (simp only: simp_thms)
  from bdl p have b1: "has_type (VAsyncIterable [VObject [(''name'', SString ''x'')]]) r'"
    by (simp only:)
  from e have b2: "has_type endlessResponses r'"
    by (rule iffD2 [OF bdr [rule_format]])
  from bdr o have b3: "\<not> has_type (VObject [(''name'', SString ''x'')]) r'"
    by (simp only: simp_thms)
  from one q have m: "has_type (VObject [(''id'', SNumber 7)]) (TMessage exampleRequest)"
    by simp
  from ss sse s1 s2 s3
  have a: "\<exists>r. ServerStreamingImpl exampleRequest exampleResponse
           = TFunction [TMessage exampleRequest, THandlerContext] r
      \<and> has_type (VAsyncIterable []) r
      \<and> has_type (VAsyncIterable [VObject [(''name'', SString ''x'')]]) r
      \<and> has_type endlessResponses r
      \<and> \<not> has_type (VObject [(''name'', SString ''x'')]) r"
    by (intro exI [of _ r] conjI)
  from bd bde b1 b2 b3
  have b: "\<exists>r. BiDiStreamingImpl exampleRequest exampleResponse
             = TFunction [TAsyncIterable (TMessage exampleRequest), THandlerContext] r
      \<and> has_type (VAsyncIterable []) r
      \<and> has_type (VAsyncIterable [VObject [(''name'', SString ''x'')]]) r
      \<and> has_type endlessResponses r
      \<and> \<not> has_type (VObject [(''name'', SString ''x'')]) r"
    by (intro exI [of _ r'] conjI)
  from a b m i d show ?thesis by (intro conjI)
qed

text \<open>
  Claim C9. Of the four signatures only the unary one lets the handler return its output
  message as a plain value. The client-streaming signature returns one output message as
  well, but every value of its return type is a promise: the message in a promise is
  accepted, the message itself is not. The two streaming-output signatures accept no
  plain message either.
\<close>

theorem only_unary_returns_synchronously:
  "(\<exists>ps r. UnaryImpl In Out = TFunction ps r
      \<and> (\<forall>m. has_type (VObject m) r \<longleftrightarrow> is_partial Out m))
   \<and> (\<exists>ps r. ClientStreamingImpl In Out = TFunction ps r
      \<and> (\<forall>v. has_type v r \<longrightarrow> (\<exists>w. v = VPromise w))
      \<and> (\<forall>m. is_partial Out m \<longrightarrow>
             has_type (VPromise (VObject m)) r \<and> \<not> has_type (VObject m) r))
   \<and> (\<exists>ps r. ServerStreamingImpl In Out = TFunction ps r
      \<and> (\<forall>m. \<not> has_type (VObject m) r))
   \<and> (\<exists>ps r. BiDiStreamingImpl In Out = TFunction ps r
      \<and> (\<forall>m. \<not> has_type (VObject m) r))"
proof (intro conjI)
  show "\<exists>ps r. UnaryImpl In Out = TFunction ps r
      \<and> (\<forall>m. has_type (VObject m) r \<longleftrightarrow> is_partial Out m)"
    by (auto simp: UnaryImpl_def dest: is_message_imp_partial)
  show "\<exists>ps r. ClientStreamingImpl In Out = TFunction ps r
      \<and> (\<forall>v. has_type v r \<longrightarrow> (\<exists>w. v = VPromise w))
      \<and> (\<forall>m. is_partial Out m \<longrightarrow>
             has_type (VPromise (VObject m)) r \<and> \<not> has_type (VObject m) r)"
  proof -
    let ?r = "TPromise (TUnion (TMessage Out) (TPartialMessage (TMessage Out)))"
    have ret: "has_type v ?r \<longleftrightarrow> (\<exists>m. is_partial Out m \<and> v = VPromise (VObject m))" for v
      unfolding has_type_promise has_type_output by auto
    have "ClientStreamingImpl In Out
        = TFunction [TAsyncIterable (TMessage In), THandlerContext] ?r"
      by (simp add: ClientStreamingImpl_def)
    moreover have "\<forall>v. has_type v ?r \<longrightarrow> (\<exists>w. v = VPromise w)"
      using ret by blast
    moreover have "\<forall>m. is_partial Out m \<longrightarrow>
        has_type (VPromise (VObject m)) ?r \<and> \<not> has_type (VObject m) ?r"
      by (simp add: ret)
    ultimately show ?thesis by blast
  qed
  show "\<exists>ps r. ServerStreamingImpl In Out = TFunction ps r
      \<and> (\<forall>m. \<not> has_type (VObject m) r)"
    by (simp add: ServerStreamingImpl_def)
  show "\<exists>ps r. BiDiStreamingImpl In Out = TFunction ps r
      \<and> (\<forall>m. \<not> has_type (VObject m) r)"
    by (simp add: BiDiStreamingImpl_def)
qed

text \<open>
  The partial response is a result of the unary signature as it is; for the
  client-streaming signature it has to be in a promise.
\<close>

theorem only_unary_returns_synchronously_witness:
  "is_partial exampleResponse [(''name'', SString ''x'')]
   \<and> (\<exists>ps r. UnaryImpl exampleRequest exampleResponse = TFunction ps r
      \<and> has_type (VObject [(''name'', SString ''x'')]) r)
   \<and> (\<exists>ps r. ClientStreamingImpl exampleRequest exampleResponse = TFunction ps r
      \<and> has_type (VPromise (VObject [(''name'', SString ''x'')])) r
      \<and> \<not> has_type (VObject [(''name'', SString ''x'')]) r)"
proof -
  have p: "is_partial exampleResponse [(''name'', SString ''x'')]"
    by (simp add: is_partial_def exampleResponse_def)
  from only_unary_returns_synchronously [of exampleRequest exampleResponse] p show ?thesis
    apply (elim exE conjE)
    subgoal for ps r ps' r' ps'' r'' ps''' r'''
      apply (intro conjI)
        apply simp
       apply (rule exI [of _ ps], rule exI [of _ r], simp)
      apply (rule exI [of _ ps'], rule exI [of _ r'], simp)
      done
    done
qed

text \<open>
  Claim C10. In the server-streaming and the bidi-streaming signature every element of
  the output sequence may be a partial message: any sequence of partial messages of the
  output type is a result, also one without a single complete message. Each element is
  completed to a message of the output type. A type with at least one field has partial
  messages that are not messages, so the allowance is a real one.
\<close>

theorem streaming_output_elements_may_be_partial:
  "(\<exists>ps r. ServerStreamingImpl In Out = TFunction ps r
      \<and> (\<forall>ms. (\<forall>m \<in> set ms. is_partial Out m) \<longrightarrow>
             has_type (VAsyncIterable (map VObject ms)) r))
   \<and> (\<exists>ps r. BiDiStreamingImpl In Out = TFunction ps r
      \<and> (\<forall>ms. (\<forall>m \<in> set ms. is_partial Out m) \<longrightarrow>
             has_type (VAsyncIterable (map VObject ms)) r))
   \<and> (\<forall>m. is_partial Out m \<longrightarrow> is_message Out (completeMessage Out m))
   \<and> (fieldList Out \<noteq> [] \<longrightarrow> is_partial Out [] \<and> \<not> is_message Out [])"
proof (intro conjI)
  let ?r = "TAsyncIterable (TUnion (TMessage Out) (TPartialMessage (TMessage Out)))"
  have el: "has_type (VAsyncIterable (map VObject ms)) ?r"
    if "\<forall>m \<in> set ms. is_partial Out m" for ms
    using that by auto
  show "\<exists>ps r. ServerStreamingImpl In Out = TFunction ps r
      \<and> (\<forall>ms. (\<forall>m \<in> set ms. is_partial Out m) \<longrightarrow>
             has_type (VAsyncIterable (map VObject ms)) r)"
    unfolding ServerStreamingImpl_def
    by (rule exI, rule exI [of _ ?r]) (simp add: el del: has_type.simps)
  show "\<exists>ps r. BiDiStreamingImpl In Out = TFunction ps r
      \<and> (\<forall>ms. (\<forall>m \<in> set ms. is_partial Out m) \<longrightarrow>
             has_type (VAsyncIterable (map VObject ms)) r)"
    unfolding BiDiStreamingImpl_def
    by (rule exI, rule exI [of _ ?r]) (simp add: el del: has_type.simps)
  show "\<forall>m. is_partial Out m \<longrightarrow> is_message Out (completeMessage Out m)"
    by (simp add: completeMessage_is_message)
  show "fieldList Out \<noteq> [] \<longrightarrow> is_partial Out [] \<and> \<not> is_message Out []"
    by (simp add: is_partial_def is_message_def)
qed

text \<open>
  A sequence of two partial responses, neither of them complete, is a result of both
  signatures.
\<close>

theorem streaming_output_elements_may_be_partial_witness:
  "is_partial exampleResponse [(''name'', SString ''x'')]
   \<and> is_partial exampleResponse []
   \<and> \<not> is_message exampleResponse [(''name'', SString ''x'')]
   \<and> (\<exists>ps r. ServerStreamingImpl exampleRequest exampleResponse = TFunction ps r
      \<and> has_type (VAsyncIterable [VObject [(''name'', SString ''x'')], VObject []]) r)
   \<and> (\<exists>ps r. BiDiStreamingImpl exampleRequest exampleResponse = TFunction ps r
      \<and> has_type (VAsyncIterable [VObject [(''name'', SString ''x'')], VObject []]) r)
   \<and> is_message exampleResponse (completeMessage exampleResponse [(''name'', SString ''x'')])"
proof -
  have p: "\<forall>m \<in> set [[(''name'', SString ''x'')], []]. is_partial exampleResponse m"
    by (simp add: is_partial_def exampleResponse_def)
  have n: "\<not> is_message exampleResponse [(''name'', SString ''x'')]"
    by (simp add: is_message_def exampleResponse_def)
  from streaming_output_elements_may_be_partial [of exampleRequest exampleResponse] p n
  show ?thesis
    apply (elim exE conjE)
    subgoal for ps r ps' r'
      apply (intro conjI)
           apply simp
          apply simp
         apply simp
        apply (rule exI [of _ ps], rule exI [of _ r])
        apply (drule spec [of _ "[[(''name'', SString ''x'')], []]"], simp)
       apply (rule exI [of _ ps'], rule exI [of _ r'])
       apply (drule spec [of _ "[[(''name'', SString ''x'')], []]"])
       apply (drule spec [of _ "[[(''name'', SString ''x'')], []]"], simp)
      apply simp
      done
    done
qed

section \<open>The handler context during a call\<close>

subsection \<open>What the events leave unchanged\<close>

lemma ctx_freezeHeaders: "ctx (freezeHeaders s) = ctx s"
  by (simp add: freezeHeaders_def)

lemma ctx_finish: "ctx (finish st s) = ctx s"
  by (simp add: finish_def Let_def ctx_freezeHeaders)

lemma ctx_step_fromHandler:
  "fromHandler e \<Longrightarrow> signal (ctx (step s e)) = signal (ctx s)"
  by (cases e) (simp_all add: ctx_finish Let_def ctx_freezeHeaders)

lemma step_keeps_query:
  "timeoutMs (ctx (step s e)) = timeoutMs (ctx s)
   \<and> protocolName (ctx (step s e)) = protocolName (ctx s)"
  by (cases e) (simp_all add: ctx_finish Let_def ctx_freezeHeaders fireSignal_def)

lemma run_keeps_query:
  "timeoutMs (ctx (run s es)) = timeoutMs (ctx s)
   \<and> protocolName (ctx (run s es)) = protocolName (ctx s)"
  by (induction es arbitrary: s) (simp_all add: step_keeps_query)

lemma step_signal_mono:
  "aborted (signal (ctx s)) \<Longrightarrow> aborted (signal (ctx (step s e)))"
  by (cases e) (simp_all add: ctx_finish Let_def ctx_freezeHeaders fireSignal_def)

lemma run_signal_mono:
  "aborted (signal (ctx s)) \<Longrightarrow> aborted (signal (ctx (run s es)))"
  by (induction es arbitrary: s) (simp_all add: step_signal_mono)

lemma signalTransitions_aborted:
  "aborted (signal (ctx s)) \<Longrightarrow> signalTransitions s es = 0"
  by (induction es arbitrary: s) (simp_all add: step_signal_mono)

lemma signalTransitions_le_1: "signalTransitions s es \<le> 1"
proof (induction es arbitrary: s)
  case Nil
  then show ?case by simp
next
  case (Cons e es)
  show ?case
  proof (cases "aborted (signal (ctx (step s e)))")
    case True
    then have "signalTransitions (step s e) es = 0"
      by (rule signalTransitions_aborted)
    then show ?thesis by simp
  next
    case False
    with Cons.IH [of "step s e"] show ?thesis by simp
  qed
qed

lemma step_cancel_fires:
  "signal (ctx (step s ClientDisconnect)) = \<lparr> aborted = True \<rparr>"
  "signal (ctx (step s DeadlineReached)) = \<lparr> aborted = True \<rparr>"
  by (simp_all add: ctx_finish fireSignal_def)

subsection \<open>The cancellation signal\<close>

text \<open>
  Claim C6. From any state of a call and along any events, the signal of the context
  goes from active to cancelled at most once, and once cancelled it stays cancelled. No
  event of the handler changes the signal: it goes from active to cancelled only on a
  client disconnect or on the lapse of the deadline. Both fire the one signal of the
  context and leave it in the same state, so the handler cannot tell the cause from
  it. A new context has an active signal.
\<close>

theorem signal_fires_at_most_once:
  "signalTransitions s es \<le> 1
   \<and> (aborted (signal (ctx s)) \<longrightarrow> aborted (signal (ctx (run s es))))
   \<and> (fromHandler e \<longrightarrow> signal (ctx (step s e)) = signal (ctx s))
   \<and> (\<not> aborted (signal (ctx s)) \<and> aborted (signal (ctx (step s e)))
        \<longrightarrow> e = ClientDisconnect \<or> e = DeadlineReached)
   \<and> aborted (signal (ctx (step s ClientDisconnect)))
   \<and> aborted (signal (ctx (step s DeadlineReached)))
   \<and> signal (ctx (step s ClientDisconnect)) = signal (ctx (step s DeadlineReached))
   \<and> \<not> aborted (signal (ctx (startCall init)))"
proof (intro conjI)
  show "signalTransitions s es \<le> 1" by (rule signalTransitions_le_1)
  show "aborted (signal (ctx s)) \<longrightarrow> aborted (signal (ctx (run s es)))"
    by (simp add: run_signal_mono)
  show "fromHandler e \<longrightarrow> signal (ctx (step s e)) = signal (ctx s)"
    by (simp add: ctx_step_fromHandler)
  show "\<not> aborted (signal (ctx s)) \<and> aborted (signal (ctx (step s e)))
        \<longrightarrow> e = ClientDisconnect \<or> e = DeadlineReached"
  proof (cases "fromHandler e")
    case True
    then show ?thesis by (simp add: ctx_step_fromHandler)
  next
    case False
    then show ?thesis by (cases e) simp_all
  qed
  show "aborted (signal (ctx (step s ClientDisconnect)))"
    using step_cancel_fires(1) [of s] by simp
  show "aborted (signal (ctx (step s DeadlineReached)))"
    using step_cancel_fires(2) [of s] by simp
  show "signal (ctx (step s ClientDisconnect)) = signal (ctx (step s DeadlineReached))"
    using step_cancel_fires [of s] by simp
  show "\<not> aborted (signal (ctx (startCall init)))"
    by (simp add: startCall_def createHandlerContext_def)
qed

subsection \<open>The timeout query\<close>

text \<open>
  Claim C5. For the context of a call, whatever has happened in the call: without a
  deadline the timeout query gives nothing. With a deadline \<open>d\<close> it gives the remaining
  milliseconds at the time of the query, \<open>d - now\<close> or 0 when that is negative, so
  never a negative number and never the value of an earlier query. Of two queries the
  later never gives more than the earlier; before the deadline each gives what is left
  at its own time; from the deadline on every query gives 0, so the remaining time
  never becomes positive again.
\<close>

theorem timeoutMs_remaining:
  assumes "c = ctx (run (startCall init) es)"
  shows "(initDeadline init = None \<longrightarrow> timeoutMs c now = None)
       \<and> (initDeadline init = Some d \<longrightarrow>
            timeoutMs c now = Some (max 0 (d - now)) \<and> (\<exists>r. timeoutMs c now = Some r \<and> 0 \<le> r))
       \<and> (ta \<le> tb \<and> timeoutMs c ta = Some ra \<and> timeoutMs c tb = Some rb \<longrightarrow> rb \<le> ra)
       \<and> (initDeadline init = Some d \<and> ta \<le> tb \<and> tb \<le> d \<longrightarrow>
            timeoutMs c ta = Some (d - ta) \<and> timeoutMs c tb = Some (d - tb))
       \<and> (initDeadline init = Some d \<and> d \<le> ta \<and> ta \<le> tb \<longrightarrow>
            timeoutMs c ta = Some 0 \<and> timeoutMs c tb = Some 0)"
proof -
  have q: "timeoutMs c = remainingMs (initDeadline init)"
    unfolding assms by (simp add: run_keeps_query startCall_def createHandlerContext_def)
  show ?thesis
    unfolding q by (cases "initDeadline init") auto
qed

subsection \<open>The protocol name\<close>

text \<open>
  Claim C7. The context of a call, whatever has happened in the call, has one of the
  three names \<open>connect\<close>, \<open>grpc\<close> and \<open>grpc-web\<close> as its protocol name: the name of the
  protocol the call was created for.
\<close>

theorem protocolName_fixed_set:
  assumes "c = ctx (run (startCall init) es)"
  shows "protocolName c \<in> {''connect'', ''grpc'', ''grpc-web''}
       \<and> protocolName c = protocolNameOf (initProtocol init)"
proof -
  have "protocolName c = protocolNameOf (initProtocol init)"
    unfolding assms by (simp add: run_keeps_query startCall_def createHandlerContext_def)
  then show ?thesis by (cases "initProtocol init") simp_all
qed

subsection \<open>The response headers and the transmission\<close>

lemma wire_ok_start: "wire_ok (startCall init)"
  by (simp add: wire_ok_def startCall_def)

lemma wire_ok_freeze:
  "wire_ok s \<Longrightarrow> wire_ok (freezeHeaders s) \<and> headersFrozen (freezeHeaders s)"
  by (simp add: wire_ok_def freezeHeaders_def)

lemma wire_ok_append:
  assumes "wire_ok s" and "headersFrozen s" and "\<not> is_headers w"
  shows "wire_ok (s\<lparr> transmitted := transmitted s @ [w] \<rparr>)"
  using assms by (simp add: wire_ok_def)

lemma wire_ok_finish: "wire_ok s \<Longrightarrow> wire_ok (finish st s)"
  by (auto simp: wire_ok_def finish_def Let_def freezeHeaders_def)

lemma wire_ok_fireSignal: "wire_ok s \<Longrightarrow> wire_ok (fireSignal s)"
  by (simp add: wire_ok_def fireSignal_def)

lemma wire_ok_step: "wire_ok s \<Longrightarrow> wire_ok (step s e)"
proof (cases e)
  case (Yield m)
  assume ok: "wire_ok s"
  let ?s' = "freezeHeaders s"
  from ok have "wire_ok ?s'" and "headersFrozen ?s'"
    by (simp_all add: wire_ok_freeze)
  then have "wire_ok (?s'\<lparr> transmitted := transmitted ?s' @ [WMessage m] \<rparr>)"
    by (intro wire_ok_append) simp_all
  with ok Yield show ?thesis by (simp add: Let_def)
qed (simp_all add: wire_ok_finish wire_ok_fireSignal, simp_all add: wire_ok_def)

lemma wire_ok_run: "wire_ok s \<Longrightarrow> wire_ok (run s es)"
  by (induction es arbitrary: s) (simp_all add: wire_ok_step)

lemma frozen_freeze:
  "headersFrozen s \<Longrightarrow> freezeHeaders s = s"
  by (simp add: freezeHeaders_def)

lemma frozen_step:
  "headersFrozen s \<Longrightarrow>
     headersFrozen (step s e) \<and> responseHeader (ctx (step s e)) = responseHeader (ctx s)"
  by (cases e) (simp_all add: finish_def fireSignal_def frozen_freeze Let_def)

lemma frozen_run:
  "headersFrozen s \<Longrightarrow>
     headersFrozen (run s es) \<and> responseHeader (ctx (run s es)) = responseHeader (ctx s)"
proof (induction es arbitrary: s)
  case Nil
  then show ?case by simp
next
  case (Cons e es)
  from Cons.prems have st: "headersFrozen (step s e)"
    "responseHeader (ctx (step s e)) = responseHeader (ctx s)"
    by (simp_all add: frozen_step)
  from Cons.IH [OF st(1)] st(2) show ?case by simp
qed

lemma wire_ok_first:
  assumes "wire_ok s" and "transmitted s \<noteq> []"
  shows "headersFrozen s \<and> transmitted s ! 0 = WHeaders (responseHeader (ctx s))"
  using assms by (auto simp: wire_ok_def hd_conv_nth split: if_splits)

lemma finish_frozen:
  "wire_ok s \<Longrightarrow> headersFrozen (finish st s) \<and> transmitted (finish st s) \<noteq> []"
  by (auto simp: finish_def Let_def freezeHeaders_def wire_ok_def split: if_splits)

lemma no_message_finish:
  "WMessage m \<notin> set (transmitted s) \<Longrightarrow> WMessage m \<notin> set (transmitted (finish st s))"
  by (simp add: finish_def Let_def freezeHeaders_def)

lemma no_message_step:
  assumes "WMessage m \<notin> set (transmitted s)" and "e \<noteq> Yield m"
  shows "WMessage m \<notin> set (transmitted (step s e))"
  using assms
  by (cases e) (simp_all add: no_message_finish fireSignal_def Let_def freezeHeaders_def)

lemma no_message_run:
  assumes "WMessage m \<notin> set (transmitted s)" and "Yield m \<notin> set es"
  shows "WMessage m \<notin> set (transmitted (run s es))"
  using assms
proof (induction es arbitrary: s)
  case Nil
  then show ?case by simp
next
  case (Cons e es)
  from Cons.prems have "WMessage m \<notin> set (transmitted (step s e))"
    by (intro no_message_step) auto
  with Cons show ?case by simp
qed

subsection \<open>The freeze of the response headers\<close>

text \<open>
  Claim C8. In every state a call with a streaming output can reach: the transmission
  is in order, so wherever a message has been transmitted the headers are frozen and
  were transmitted first, at position 0, before the message. Yielding a message leaves
  the headers frozen. Once the headers are frozen, adding a response header changes
  nothing, and the headers stay frozen and the same along all further events. A call
  that has ended has frozen headers. When the handler fails, the headers are frozen and
  are the first thing transmitted, also when the handler has yielded no message, and
  then no message is transmitted.
\<close>

theorem headers_frozen_before_first_output:
  assumes "s = run (startCall init) es"
  shows "wire_ok s
       \<and> (j < length (transmitted s) \<and> transmitted s ! j = WMessage m \<longrightarrow>
            headersFrozen s \<and> 0 < j \<and> transmitted s ! 0 = WHeaders (responseHeader (ctx s)))
       \<and> headersFrozen (step s (Yield m))
       \<and> (headersFrozen s \<longrightarrow> step s (AppendResponseHeader k v) = s)
       \<and> (headersFrozen s \<longrightarrow>
            headersFrozen (run s es') \<and> responseHeader (ctx (run s es')) = responseHeader (ctx s))
       \<and> (terminal s \<noteq> None \<longrightarrow> headersFrozen s)
       \<and> headersFrozen (step s Throw)
       \<and> transmitted (step s Throw) ! 0 = WHeaders (responseHeader (ctx s))
       \<and> (Yield m \<notin> set es \<longrightarrow> WMessage m \<notin> set (transmitted (step s Throw)))"
proof -
  have ok: "wire_ok s"
    unfolding assms by (intro wire_ok_run wire_ok_start)
  have msg: "headersFrozen s \<and> 0 < j \<and> transmitted s ! 0 = WHeaders (responseHeader (ctx s))"
    if "j < length (transmitted s)" and "transmitted s ! j = WMessage m"
  proof -
    from that(1) have "transmitted s \<noteq> []" by auto
    with ok have first: "headersFrozen s"
      "transmitted s ! 0 = WHeaders (responseHeader (ctx s))"
      by (simp_all add: wire_ok_first)
    have "j \<noteq> 0"
    proof
      assume "j = 0"
      with first(2) that(2) show False by simp
    qed
    with first show ?thesis by simp
  qed
  have yield: "headersFrozen (step s (Yield m))"
    using ok by (auto simp: Let_def freezeHeaders_def wire_ok_def split: if_splits)
  have ign: "step s (AppendResponseHeader k v) = s" if "headersFrozen s"
    using that by simp
  have ended: "headersFrozen s" if "terminal s \<noteq> None"
    using ok that by (auto simp: wire_ok_def split: if_splits)
  have fails: "headersFrozen (step s Throw)"
    "transmitted (step s Throw) ! 0 = WHeaders (responseHeader (ctx s))"
  proof -
    from ok have "wire_ok (step s Throw)" by (rule wire_ok_step)
    moreover from ok have "headersFrozen (step s Throw)" "transmitted (step s Throw) \<noteq> []"
      by (simp_all add: finish_frozen)
    ultimately have "transmitted (step s Throw) ! 0 = WHeaders (responseHeader (ctx (step s Throw)))"
      using wire_ok_first by blast
    then show "transmitted (step s Throw) ! 0 = WHeaders (responseHeader (ctx s))"
      by (simp add: ctx_finish)
    show "headersFrozen (step s Throw)" by fact
  qed
  have none: "WMessage m \<notin> set (transmitted (step s Throw))" if "Yield m \<notin> set es"
  proof -
    have "WMessage m \<notin> set (transmitted (startCall init))"
      by (simp add: startCall_def)
    with that have "WMessage m \<notin> set (transmitted s)"
      unfolding assms by (intro no_message_run)
    then show ?thesis by (intro no_message_step) simp_all
  qed
  from ok msg yield ign frozen_run [of s es'] ended fails none show ?thesis
    by (intro conjI impI) simp_all
qed

text \<open>
  The example call has its deadline at 1000: the query gives 600 at 400, and 0 at 1500
  and at 2000. Without a deadline it gives nothing.
\<close>

theorem timeoutMs_remaining_witness:
  "timeoutMs (ctx (run (startCall exampleInit) [Yield [], AppendResponseTrailer ''a'' ''b''])) 400
     = Some 600
   \<and> timeoutMs (ctx (run (startCall exampleInit) [Yield [], AppendResponseTrailer ''a'' ''b''])) 1500
     = Some 0
   \<and> timeoutMs (ctx (run (startCall exampleInit) [Yield [], AppendResponseTrailer ''a'' ''b''])) 2000
     = Some 0
   \<and> timeoutMs (ctx (run (startCall (exampleInit\<lparr> initDeadline := None \<rparr>)) [])) 400 = None"
proof -
  have d: "initDeadline exampleInit = Some 1000"
    by (simp add: exampleInit_def)
  from timeoutMs_remaining [OF refl, where init = exampleInit
      and es = "[Yield [], AppendResponseTrailer ''a'' ''b'']"
      and now = 400 and d = 1000 and ta = 1500 and tb = 2000] d
  have a: "timeoutMs (ctx (run (startCall exampleInit) [Yield [], AppendResponseTrailer ''a'' ''b''])) 400
     = Some 600
   \<and> timeoutMs (ctx (run (startCall exampleInit) [Yield [], AppendResponseTrailer ''a'' ''b''])) 1500
     = Some 0
   \<and> timeoutMs (ctx (run (startCall exampleInit) [Yield [], AppendResponseTrailer ''a'' ''b''])) 2000
     = Some 0"
    by simp
  from timeoutMs_remaining [OF refl, where init = "exampleInit\<lparr> initDeadline := None \<rparr>"
      and es = "[]" and now = 400]
  have b: "timeoutMs (ctx (run (startCall (exampleInit\<lparr> initDeadline := None \<rparr>)) [])) 400 = None"
    by simp
  from a b show ?thesis by simp
qed

text \<open>The example call is a gRPC-Web call, and stays one.\<close>

theorem protocolName_fixed_set_witness:
  "protocolName (ctx (run (startCall exampleInit) [Yield [], ClientDisconnect])) = ''grpc-web''
   \<and> protocolName (ctx (run (startCall exampleInit) [Yield [], ClientDisconnect]))
       \<in> {''connect'', ''grpc'', ''grpc-web''}"
proof -
  have p: "initProtocol exampleInit = GrpcWeb"
    by (simp add: exampleInit_def)
  from protocolName_fixed_set [OF refl, of exampleInit "[Yield [], ClientDisconnect]"] p
  show ?thesis by simp
qed

text \<open>
  The example call: the signal is active at the start, a failing handler leaves it as it
  is, a client disconnect fires it, and it is still fired after the deadline lapses and
  the handler fails; along the four events it fires once at most.
\<close>

theorem signal_fires_at_most_once_witness:
  "\<not> aborted (signal (ctx (startCall exampleInit)))
   \<and> signal (ctx (step (startCall exampleInit) Throw)) = signal (ctx (startCall exampleInit))
   \<and> aborted (signal (ctx (step (startCall exampleInit) ClientDisconnect)))
   \<and> aborted (signal (ctx (run (step (startCall exampleInit) ClientDisconnect)
                              [DeadlineReached, Throw])))
   \<and> signalTransitions (startCall exampleInit)
        [Yield [], ClientDisconnect, DeadlineReached, Throw] \<le> 1"
proof -
  let ?s = "startCall exampleInit"
  from signal_fires_at_most_once
    [of ?s "[Yield [], ClientDisconnect, DeadlineReached, Throw]" Throw exampleInit]
  have a: "\<not> aborted (signal (ctx ?s))"
    and b: "signal (ctx (step ?s Throw)) = signal (ctx ?s)"
    and c: "aborted (signal (ctx (step ?s ClientDisconnect)))"
    and d: "signalTransitions ?s [Yield [], ClientDisconnect, DeadlineReached, Throw] \<le> 1"
    by (simp_all del: step.simps signalTransitions.simps)
  from signal_fires_at_most_once
    [of "step ?s ClientDisconnect" "[DeadlineReached, Throw]" Throw exampleInit] c
  have e: "aborted (signal (ctx (run (step ?s ClientDisconnect) [DeadlineReached, Throw])))"
    by (simp del: step.simps run.simps)
  from a b c d e show ?thesis by (intro conjI)
qed

text \<open>
  The example call: a header added before the first message is transmitted ahead of both
  messages, a header added after the first message is ignored. A handler that adds a
  header and fails without a message has its headers frozen and transmitted, followed
  by the end of the call only.
\<close>

theorem headers_frozen_before_first_output_witness:
  "transmitted (run (startCall exampleInit)
       [AppendResponseHeader ''a'' ''1'', Yield [(''name'', SString ''x'')],
        AppendResponseHeader ''b'' ''2'', Yield []])
     = [WHeaders [(''a'', ''1'')], WMessage [(''name'', SString ''x'')], WMessage []]
   \<and> headersFrozen (run (startCall exampleInit)
       [AppendResponseHeader ''a'' ''1'', Yield [(''name'', SString ''x'')],
        AppendResponseHeader ''b'' ''2'', Yield []])
   \<and> responseHeader (ctx (run (startCall exampleInit)
       [AppendResponseHeader ''a'' ''1'', Yield [(''name'', SString ''x'')],
        AppendResponseHeader ''b'' ''2'', Yield []])) = [(''a'', ''1'')]
   \<and> transmitted (step (run (startCall exampleInit) [AppendResponseHeader ''a'' ''1'']) Throw)
     = [WHeaders [(''a'', ''1'')], WEnd Internal []]
   \<and> headersFrozen (step (run (startCall exampleInit) [AppendResponseHeader ''a'' ''1'']) Throw)"
proof -
  let ?es = "[AppendResponseHeader ''a'' ''1'', Yield [(''name'', SString ''x'')],
        AppendResponseHeader ''b'' ''2'', Yield []]"
  let ?s = "run (startCall exampleInit) ?es"
  let ?z = "run (startCall exampleInit) [AppendResponseHeader ''a'' ''1'']"
  have ev: "transmitted ?s
      = [WHeaders [(''a'', ''1'')], WMessage [(''name'', SString ''x'')], WMessage []]"
    by (simp add: startCall_def createHandlerContext_def freezeHeaders_def Let_def)
  have hd: "responseHeader (ctx ?s) = [(''a'', ''1'')]"
    by (simp add: startCall_def createHandlerContext_def freezeHeaders_def Let_def)
  have zero: "transmitted (step ?z Throw) = [WHeaders [(''a'', ''1'')], WEnd Internal []]"
    by (simp add: startCall_def createHandlerContext_def freezeHeaders_def finish_def Let_def)
  from ev have j: "1 < length (transmitted ?s) \<and> transmitted ?s ! 1 = WMessage [(''name'', SString ''x'')]"
    by simp
  from headers_frozen_before_first_output
    [OF refl, of exampleInit ?es 1 "[(''name'', SString ''x'')]" "''b''" "''2''" "[]"] j
  have fr: "headersFrozen ?s"
    by blast
  from headers_frozen_before_first_output
    [OF refl, of exampleInit "[AppendResponseHeader ''a'' ''1'']" 0 "[]" "''b''" "''2''" "[]"]
  have fz: "headersFrozen (step ?z Throw)"
    by blast
  from ev hd zero fr fz show ?thesis by (intro conjI)
qed

end
